theory Spec2Isabelle
  imports Main
begin

section \<open>Text\<close>

text \<open>
  A Python \<open>str\<close> is a sequence of Unicode code points; the patterns and the texts of
  this program are Japanese, so a character is modelled by its code point and a string
  by the list of them. Comments give the code point in hexadecimal (\<open>U+3067\<close>).
\<close>

type_synonym ustr = "nat list"

text \<open>
  \<open>str.isspace\<close> on one character; \<open>str.strip()\<close> and the pattern class \<open>\s\<close> use
  the same predicate: U+0009..U+000D, U+001C..U+0020, U+0085, U+00A0, U+1680,
  U+2000..U+200A, U+2028, U+2029, U+202F, U+205F, U+3000.
\<close>

definition isspace :: "nat \<Rightarrow> bool" where
  "isspace c \<longleftrightarrow>
     (9 \<le> c \<and> c \<le> 13) \<or> (28 \<le> c \<and> c \<le> 32) \<or> c = 133 \<or> c = 160 \<or> c = 5760 \<or>
     (8192 \<le> c \<and> c \<le> 8202) \<or> c = 8232 \<or> c = 8233 \<or> c = 8239 \<or> c = 8287 \<or> c = 12288"

definition strip :: "ustr \<Rightarrow> ustr" where
  "strip s = rev (dropWhile isspace (rev (dropWhile isspace s)))"

text \<open>\<open>s[a:b]\<close> for \<open>0 \<le> a\<close>, \<open>0 \<le> b\<close>.\<close>

definition slice :: "ustr \<Rightarrow> nat \<Rightarrow> nat \<Rightarrow> ustr" where
  "slice s a b = take (b - a) (drop a s)"

text \<open>\<open>sep.join(xs)\<close>.\<close>

fun join :: "ustr \<Rightarrow> ustr list \<Rightarrow> ustr" where
  "join sep [] = []"
| "join sep [x] = x"
| "join sep (x # y # ys) = x @ sep @ join sep (y # ys)"

section \<open>Compiled patterns\<close>

text \<open>
  The pattern syntax the built-in rules are written in: literal text, a character set
  \<open>[...]\<close> of characters, ranges and \<open>\s\<close>, concatenation, alternation \<open>a|b\<close>,
  the greedy option \<open>r?\<close>, the greedy repetition \<open>[...]{lo,hi}\<close> of a character set
  (\<open>*\<close> is \<open>{0,}\<close>), the non-capturing group \<open>(?:r)\<close>, which is \<open>r\<close> itself, and the
  capturing group \<open>(r)\<close>.
\<close>

datatype citem = CChar nat | CRange nat nat | CSpace

datatype regex =
    Lit ustr
  | Cls "citem list"
  | Seq regex regex
  | Alt regex regex
  | Opt regex
  | Rep "citem list" nat "nat option"
  | Grp regex

fun in_item :: "nat \<Rightarrow> citem \<Rightarrow> bool" where
  "in_item c (CChar d) = (c = d)"
| "in_item c (CRange lo hi) = (lo \<le> c \<and> c \<le> hi)"
| "in_item c CSpace = isspace c"

definition in_class :: "citem list \<Rightarrow> nat \<Rightarrow> bool" where
  "in_class cs c = list_ex (in_item c) cs"

text \<open>The number of capturing groups of a pattern (\<open>pattern.groups\<close>).\<close>

fun ngroups :: "regex \<Rightarrow> nat" where
  "ngroups (Lit w) = 0"
| "ngroups (Cls cs) = 0"
| "ngroups (Seq a b) = ngroups a + ngroups b"
| "ngroups (Alt a b) = ngroups a + ngroups b"
| "ngroups (Opt a) = ngroups a"
| "ngroups (Rep cs lo hi) = 0"
| "ngroups (Grp a) = Suc (ngroups a)"

text \<open>
  The spans of the groups that took part in a match, by group number from 0 (Python's
  group 1 is number 0 here); a group that did not take part has no span.
\<close>

type_synonym caps = "nat \<rightharpoonup> nat \<times> nat"

text \<open>
  How many characters from position \<open>i\<close> on are in the set, at most \<open>hi\<close> of them.
\<close>

definition run_len :: "citem list \<Rightarrow> nat option \<Rightarrow> ustr \<Rightarrow> nat \<Rightarrow> nat" where
  "run_len cs hi s i =
     length (takeWhile (in_class cs)
       (case hi of None \<Rightarrow> drop i s | Some h \<Rightarrow> take h (drop i s)))"

text \<open>
  The backtracking matcher. \<open>sre_match r k s i c\<close> lists, in the order the engine tries
  them, the ways pattern \<open>r\<close> matches text \<open>s\<close> from position \<open>i\<close>: the end position
  and the group spans of each. \<open>k\<close> is the number of the first group of \<open>r\<close> (groups are
  numbered by their opening parenthesis, left to right) and \<open>c\<close> the spans so far.
  Alternation tries its branches left to right, an option tries its body before
  skipping it, and a repetition takes as many characters as it can and gives them back
  one at a time.
\<close>

fun sre_match :: "regex \<Rightarrow> nat \<Rightarrow> ustr \<Rightarrow> nat \<Rightarrow> caps \<Rightarrow> (nat \<times> caps) list" where
  "sre_match (Lit w) k s i c =
     (if take (length w) (drop i s) = w then [(i + length w, c)] else [])"
| "sre_match (Cls cs) k s i c =
     (if i < length s \<and> in_class cs (s ! i) then [(Suc i, c)] else [])"
| "sre_match (Seq a b) k s i c =
     concat (map (\<lambda>jc. sre_match b (k + ngroups a) s (fst jc) (snd jc)) (sre_match a k s i c))"
| "sre_match (Alt a b) k s i c =
     sre_match a k s i c @ sre_match b (k + ngroups a) s i c"
| "sre_match (Opt a) k s i c = sre_match a k s i c @ [(i, c)]"
| "sre_match (Rep cs lo hi) k s i c =
     map (\<lambda>n. (i + n, c)) (rev [lo..<Suc (run_len cs hi s i)])"
| "sre_match (Grp a) k s i c =
     map (\<lambda>jc. (fst jc, (snd jc)(k \<mapsto> (i, fst jc)))) (sre_match a (Suc k) s i c)"

text \<open>
  One attempt at position \<open>i\<close>: the first way to match. With \<open>must_advance\<close> an empty
  match is refused and the engine backtracks to the next way.
\<close>

definition match_at :: "regex \<Rightarrow> ustr \<Rightarrow> nat \<Rightarrow> bool \<Rightarrow> (nat \<times> caps) option" where
  "match_at r s i must_advance =
     List.find (\<lambda>jc. \<not> (must_advance \<and> fst jc = i)) (sre_match r 0 s i Map.empty)"

text \<open>
  \<open>search\<close>: the leftmost position from \<open>pos\<close> on with a match, as (start, end, spans).
  \<open>must_advance\<close> holds for the attempt at \<open>pos\<close> only.
\<close>

fun search_in :: "regex \<Rightarrow> ustr \<Rightarrow> nat list \<Rightarrow> (nat \<times> nat \<times> caps) option" where
  "search_in r s [] = None"
| "search_in r s (p # ps) =
     (case match_at r s p False of
        Some jc \<Rightarrow> Some (p, fst jc, snd jc)
      | None \<Rightarrow> search_in r s ps)"

definition sre_search :: "regex \<Rightarrow> ustr \<Rightarrow> nat \<Rightarrow> bool \<Rightarrow> (nat \<times> nat \<times> caps) option" where
  "sre_search r s pos must_advance =
     (if length s < pos then None
      else case match_at r s pos must_advance of
        Some jc \<Rightarrow> Some (pos, fst jc, snd jc)
      | None \<Rightarrow> search_in r s [Suc pos..<Suc (length s)])"

lemma sre_match_bounds:
  "jc \<in> set (sre_match r k s i c) \<Longrightarrow> i \<le> fst jc \<and> (i \<le> length s \<longrightarrow> fst jc \<le> length s)"
proof (induction r arbitrary: k i c jc)
  case (Lit w)
  then have w: "take (length w) (drop i s) = w" and j: "fst jc = i + length w"
    by (auto split: if_splits)
  from w have "length (take (length w) (drop i s)) = length w" by simp
  then have "length w \<le> length s - i" by simp
  with j show ?case by auto
next
  case (Rep cs lo hi)
  have "run_len cs hi s i \<le> length s - i"
  proof -
    have "run_len cs hi s i \<le> length (case hi of None \<Rightarrow> drop i s | Some h \<Rightarrow> take h (drop i s))"
      unfolding run_len_def by (rule length_takeWhile_le)
    also have "\<dots> \<le> length s - i" by (simp split: option.split)
    finally show ?thesis .
  qed
  with Rep show ?case by auto
next
  case (Seq a b)
  then obtain m where m: "m \<in> set (sre_match a k s i c)"
    and jc: "jc \<in> set (sre_match b (k + ngroups a) s (fst m) (snd m))"
    by auto
  from Seq.IH(1)[OF m] Seq.IH(2)[OF jc] show ?case by auto
next
  case (Grp a)
  then obtain m where "m \<in> set (sre_match a (Suc k) s i c)" and "fst jc = fst m"
    by auto
  with Grp.IH show ?case by metis
qed (auto split: if_splits)

lemma match_at_bounds:
  assumes "match_at r s i ma = Some jc"
  shows "i \<le> fst jc" and "i \<le> length s \<Longrightarrow> fst jc \<le> length s" and "ma \<Longrightarrow> i < fst jc"
proof -
  from assms have mem: "jc \<in> set (sre_match r 0 s i Map.empty)"
    and ok: "\<not> (ma \<and> fst jc = i)"
    unfolding match_at_def by (auto simp: find_Some_iff)
  from sre_match_bounds[OF mem] show "i \<le> fst jc" and "i \<le> length s \<Longrightarrow> fst jc \<le> length s"
    by auto
  with ok show "ma \<Longrightarrow> i < fst jc" by auto
qed

lemma search_in_bounds:
  "search_in r s ps = Some m \<Longrightarrow>
     fst m \<in> set ps \<and> fst m \<le> fst (snd m) \<and> (fst m \<le> length s \<longrightarrow> fst (snd m) \<le> length s)"
proof (induction ps)
  case Nil
  then show ?case by simp
next
  case (Cons p ps)
  show ?case
  proof (cases "match_at r s p False")
    case None
    with Cons show ?thesis by auto
  next
    case (Some jc)
    with Cons.prems have "m = (p, fst jc, snd jc)" by simp
    with match_at_bounds(1,2)[OF Some] show ?thesis by auto
  qed
qed

lemma sre_search_bounds:
  assumes "sre_search r s pos ma = Some m"
  shows "pos \<le> fst m" and "fst m \<le> fst (snd m)" and "fst (snd m) \<le> length s"
    and "ma \<Longrightarrow> pos < fst (snd m)"
proof -
  from assms have le: "pos \<le> length s"
    unfolding sre_search_def by (auto split: if_splits)
  have all: "pos \<le> fst m \<and> fst m \<le> fst (snd m) \<and> fst (snd m) \<le> length s \<and> (ma \<longrightarrow> pos < fst (snd m))"
  proof (cases "match_at r s pos ma")
    case (Some jc)
    with assms le have "m = (pos, fst jc, snd jc)"
      unfolding sre_search_def by simp
    with match_at_bounds[OF Some] le show ?thesis by auto
  next
    case None
    with assms le have "search_in r s [Suc pos..<Suc (length s)] = Some m"
      unfolding sre_search_def by simp
    from search_in_bounds[OF this] show ?thesis by auto
  qed
  from all show "pos \<le> fst m" and "fst m \<le> fst (snd m)" and "fst (snd m) \<le> length s"
    and "ma \<Longrightarrow> pos < fst (snd m)"
    by auto
qed

text \<open>
  The scan of \<open>findall\<close> and \<open>finditer\<close>: search from the end of the previous match;
  after an empty match the next one must advance. Every match is (start, end, spans).
\<close>

function finditer_from :: "regex \<Rightarrow> ustr \<Rightarrow> nat \<Rightarrow> bool \<Rightarrow> (nat \<times> nat \<times> caps) list" where
  "finditer_from r s pos must_advance =
     (case sre_search r s pos must_advance of
        None \<Rightarrow> []
      | Some m \<Rightarrow> m # finditer_from r s (fst (snd m)) (fst (snd m) = fst m))"
  by pat_completeness auto
termination
proof (relation "measure (\<lambda>(r, s, pos, ma). 2 * (Suc (length s) - pos) + (if ma then 0 else 1))")
  show "wf (measure (\<lambda>(r, s, pos, ma). 2 * (Suc (length s) - pos) + (if ma then 0 else 1)))"
    by simp
next
  fix r s pos and must_advance :: bool and m
  assume m: "sre_search r s pos must_advance = Some m"
  note b = sre_search_bounds[OF m]
  show "((r, s, fst (snd m), fst (snd m) = fst m), (r, s, pos, must_advance))
          \<in> measure (\<lambda>(r, s, pos, ma). 2 * (Suc (length s) - pos) + (if ma then 0 else 1))"
  proof (cases "pos < fst (snd m)")
    case True
    with b(3) show ?thesis by (simp split: if_splits) arith
  next
    case False
    with b have eq: "fst (snd m) = pos" "fst m = pos" "\<not> must_advance" by auto
    then show ?thesis by simp
  qed
qed

definition finditer :: "regex \<Rightarrow> ustr \<Rightarrow> (nat \<times> nat \<times> caps) list" where
  "finditer r s = finditer_from r s 0 False"

text \<open>
  \<open>match.group(k + 1)\<close> as \<open>findall\<close> reports it: the text of the span, the empty string
  for a group that did not take part.
\<close>

definition group_text :: "ustr \<Rightarrow> caps \<Rightarrow> nat \<Rightarrow> ustr" where
  "group_text s c k = (case c k of None \<Rightarrow> [] | Some ab \<Rightarrow> slice s (fst ab) (snd ab))"

text \<open>
  \<open>pattern.findall(s)\<close>: one item per match; the whole match for a pattern without
  groups, the text of the group for a pattern with one group, and the tuple of the
  texts of all groups for a pattern with several.
\<close>

datatype found = FStr ustr | FTuple "ustr list"

definition found_of :: "regex \<Rightarrow> ustr \<Rightarrow> nat \<times> nat \<times> caps \<Rightarrow> found" where
  "found_of r s m =
     (if ngroups r = 0 then FStr (slice s (fst m) (fst (snd m)))
      else if ngroups r = 1 then FStr (group_text s (snd (snd m)) 0)
      else FTuple (map (group_text s (snd (snd m))) [0..<ngroups r]))"

definition findall :: "regex \<Rightarrow> ustr \<Rightarrow> found list" where
  "findall r s = map (found_of r s) (finditer r s)"

section \<open>The built-in rules\<close>

text \<open>
  Each pattern of the source is given as the pattern \<open>re.compile\<close> makes of it.
\<close>

text \<open>
  \<open>RESPECT_WORDS\<close>, compiled. In these comments a character outside ASCII is
  written as its code point in hexadecimal between angle brackets:
  \<^item> \<^verbatim>\<open><306A><3055><308B>\<close>
  \<^item> \<^verbatim>\<open><3044><3089><3063><3057><3083><308B>\<close>
  \<^item> \<^verbatim>\<open><304A><3044><3067><306B><306A><308B>\<close>
  \<^item> \<^verbatim>\<open><304A><3063><3057><3083><308B>\<close>
  \<^item> \<^verbatim>\<open><3054><89A7><306B><306A><308B>\<close>
  \<^item> \<^verbatim>\<open><53EC><3057><4E0A><304C><308B>\<close>
  \<^item> \<^verbatim>\<open><304A><8D8A><3057><306B><306A><308B>\<close>
  \<^item> \<^verbatim>\<open><304A><5E30><308A><306B><306A><308B>\<close>
  \<^item> \<^verbatim>\<open><3054><5B58><3058>(?:<3060>|<3067><3059>)\<close>
  \<^item> \<^verbatim>\<open><304F><3060><3055><308B>\<close>
  \<^item> \<^verbatim>\<open><304A><4F11><307F><306B><306A><308B>\<close>
\<close>

definition RESPECT_WORDS :: "regex list" where
  "RESPECT_WORDS =
    [Lit [0x306A, 0x3055, 0x308B],
     Lit [0x3044, 0x3089, 0x3063, 0x3057, 0x3083, 0x308B],
     Lit [0x304A, 0x3044, 0x3067, 0x306B, 0x306A, 0x308B],
     Lit [0x304A, 0x3063, 0x3057, 0x3083, 0x308B],
     Lit [0x3054, 0x89A7, 0x306B, 0x306A, 0x308B],
     Lit [0x53EC, 0x3057, 0x4E0A, 0x304C, 0x308B],
     Lit [0x304A, 0x8D8A, 0x3057, 0x306B, 0x306A, 0x308B],
     Lit [0x304A, 0x5E30, 0x308A, 0x306B, 0x306A, 0x308B],
     Seq (Lit [0x3054, 0x5B58, 0x3058]) (Alt (Lit [0x3060]) (Lit [0x3067, 0x3059])),
     Lit [0x304F, 0x3060, 0x3055, 0x308B],
     Lit [0x304A, 0x4F11, 0x307F, 0x306B, 0x306A, 0x308B]]"

text \<open>
  \<open>HUMBLE_WORDS\<close>, compiled:
  \<^item> \<^verbatim>\<open><3044><305F><3059>\<close>
  \<^item> \<^verbatim>\<open><5B58><3058>(?:<307E><3059>|<4E0A><3052><308B>|<4E0A><3052>\<close>
    \<^verbatim>\<open><3066><304A><308A><307E><3059>)\<close>
    (one pattern, shown in pieces)
  \<^item> \<^verbatim>\<open><7533><3057>(?:<307E><3059>|<4E0A><3052><308B>|<4E0A><3052>\<close>
    \<^verbatim>\<open><3066><304A><308A><307E><3059>)\<close>
    (one pattern, shown in pieces)
  \<^item> \<^verbatim>\<open><62DD><898B>(?:<3057><307E><3059>|<3044><305F><3057><307E>\<close>
    \<^verbatim>\<open><3059>)\<close>
    (one pattern, shown in pieces)
  \<^item> \<^verbatim>\<open><4F3A>(?:<3044><307E><3059>|<3044><307E><3057><305F>|<308F>\<close>
    \<^verbatim>\<open><305B><3066>)\<close>
    (one pattern, shown in pieces)
  \<^item> \<^verbatim>\<open><5DEE><3057><4E0A><3052>(?:<307E><3059>|<307E><3057><305F>)\<close>
    (one pattern, shown in pieces)
  \<^item> \<^verbatim>\<open><627F><77E5>(?:<3057><307E><3057><305F>|<3044><305F><3057>\<close>
    \<^verbatim>\<open><307E><3057><305F>|<3057><3066><304A><308A><307E><3059>)\<close>
    (one pattern, shown in pieces)
  \<^item> \<^verbatim>\<open><9802>(?:<304D><307E><3059>|<3051><307E><3059>)\<close>
  \<^item> \<^verbatim>\<open><3044><305F><3060>(?:<304D><307E><3059>|<3051><307E><3059>|\<close>
    \<^verbatim>\<open><3044><3066><304A><308A><307E><3059>)\<close>
    (one pattern, shown in pieces)
  \<^item> \<^verbatim>\<open><53C2>(?:<308A>|<308A><307E><3059>)\<close>
\<close>

definition HUMBLE_WORDS :: "regex list" where
  "HUMBLE_WORDS =
    [Lit [0x3044, 0x305F, 0x3059],
     Seq (Lit [0x5B58, 0x3058]) (Alt (Lit [0x307E, 0x3059]) (Alt (Lit [0x4E0A, 0x3052,
       0x308B]) (Lit [0x4E0A, 0x3052, 0x3066, 0x304A, 0x308A, 0x307E, 0x3059]))),
     Seq (Lit [0x7533, 0x3057]) (Alt (Lit [0x307E, 0x3059]) (Alt (Lit [0x4E0A, 0x3052,
       0x308B]) (Lit [0x4E0A, 0x3052, 0x3066, 0x304A, 0x308A, 0x307E, 0x3059]))),
     Seq (Lit [0x62DD, 0x898B]) (Alt (Lit [0x3057, 0x307E, 0x3059]) (Lit [0x3044,
       0x305F, 0x3057, 0x307E, 0x3059])),
     Seq (Lit [0x4F3A]) (Alt (Lit [0x3044, 0x307E, 0x3059]) (Alt (Lit [0x3044, 0x307E,
       0x3057, 0x305F]) (Lit [0x308F, 0x305B, 0x3066]))),
     Seq (Lit [0x5DEE, 0x3057, 0x4E0A, 0x3052]) (Alt (Lit [0x307E, 0x3059])
       (Lit [0x307E, 0x3057, 0x305F])),
     Seq (Lit [0x627F, 0x77E5]) (Alt (Lit [0x3057, 0x307E, 0x3057, 0x305F]) (Alt
       (Lit [0x3044, 0x305F, 0x3057, 0x307E, 0x3057, 0x305F]) (Lit [0x3057, 0x3066,
       0x304A, 0x308A, 0x307E, 0x3059]))),
     Seq (Lit [0x9802]) (Alt (Lit [0x304D, 0x307E, 0x3059]) (Lit [0x3051, 0x307E,
       0x3059])),
     Seq (Lit [0x3044, 0x305F, 0x3060]) (Alt (Lit [0x304D, 0x307E, 0x3059]) (Alt
       (Lit [0x3051, 0x307E, 0x3059]) (Lit [0x3044, 0x3066, 0x304A, 0x308A, 0x307E,
       0x3059]))),
     Seq (Lit [0x53C2]) (Alt (Lit [0x308A]) (Lit [0x308A, 0x307E, 0x3059]))]"

text \<open>
  \<open>TAIL\<close>, the fragment both polite patterns end with:
  \<^item> \<^verbatim>\<open>[<30FC><301C>~<FF57><7B11>]*[\s<3000>]*[<3002><FF0E>.!<FF01>\<close>
    \<^verbatim>\<open>?<FF1F><3001>,<FF1A>:<FF1B>;<2026><2025><300D><300F><FF09>\)\<close>
    \<^verbatim>\<open>\]<3011><3009><300B>]*\<close>
    (one pattern, shown in pieces)
\<close>

definition TAIL :: regex where
  "TAIL =
     Seq (Rep [CChar 0x30FC, CChar 0x301C, CChar 0x7E, CChar 0xFF57, CChar 0x7B11] 0
       None) (Seq (Rep [CSpace, CChar 0x3000] 0 None) (Rep [CChar 0x3002, CChar 0xFF0E,
       CChar 0x2E, CChar 0x21, CChar 0xFF01, CChar 0x3F, CChar 0xFF1F, CChar 0x3001,
       CChar 0x2C, CChar 0xFF1A, CChar 0x3A, CChar 0xFF1B, CChar 0x3B, CChar 0x2026,
       CChar 0x2025, CChar 0x300D, CChar 0x300F, CChar 0xFF09, CChar 0x29, CChar 0x5D,
       CChar 0x3011, CChar 0x3009, CChar 0x300B] 0 None))"

text \<open>
  \<open>POLITE_PATTERNS\<close>, compiled:
  \<^item> \<^verbatim>\<open>(?:<3067><3059>|<307E><3059>|<3067><3057><305F>|<3067><3057>\<close>
    \<^verbatim>\<open><3087><3046>|<307E><305B><3093>|<3067><3054><3056><3044>\<close>
    \<^verbatim>\<open><307E><3059>|<3054><3056><3044>(?:<307E><3059>|<307E><305B>\<close>
    \<^verbatim>\<open><3093>))(?:<304B>|<306D>|<3088>)?{TAIL}\<close>
    (one pattern, shown in pieces)
  \<^item> \<^verbatim>\<open><304F><3060><3055><3044>{TAIL}\<close>
\<close>

definition POLITE_PATTERNS :: "regex list" where
  "POLITE_PATTERNS =
    [Seq (Alt (Lit [0x3067, 0x3059]) (Alt (Lit [0x307E, 0x3059]) (Alt (Lit [0x3067,
       0x3057, 0x305F]) (Alt (Lit [0x3067, 0x3057, 0x3087, 0x3046]) (Alt (Lit [0x307E,
       0x305B, 0x3093]) (Alt (Lit [0x3067, 0x3054, 0x3056, 0x3044, 0x307E, 0x3059]) (Seq
       (Lit [0x3054, 0x3056, 0x3044]) (Alt (Lit [0x307E, 0x3059]) (Lit [0x307E, 0x305B,
       0x3093]))))))))) (Seq (Opt (Alt (Lit [0x304B]) (Alt (Lit [0x306D])
       (Lit [0x3088])))) TAIL),
     Seq (Lit [0x304F, 0x3060, 0x3055, 0x3044]) TAIL]"

text \<open>
  \<open>BEAUTIFIER_PATTERNS\<close>, compiled:
  \<^item> \<^verbatim>\<open>(?:<304A>|<3054>)[<4E00>-<9FA5><3041>-<3093><30A1>-<30F3>]{1\<close>
    \<^verbatim>\<open>,6}(?:<3044><305F><3057><307E><3059>|<3057><307E><3059>|\<close>
    \<^verbatim>\<open><304F><3060><3055><3044>|<3067><3059>)\<close>
    (one pattern, shown in pieces)
\<close>

definition BEAUTIFIER_PATTERNS :: "regex list" where
  "BEAUTIFIER_PATTERNS =
    [Seq (Alt (Lit [0x304A]) (Lit [0x3054])) (Seq (Rep [CRange 0x4E00 0x9FA5,
       CRange 0x3041 0x3093, CRange 0x30A1 0x30F3] 1 (Some 6)) (Alt (Lit [0x3044, 0x305F,
       0x3057, 0x307E, 0x3059]) (Alt (Lit [0x3057, 0x307E, 0x3059]) (Alt (Lit [0x304F,
       0x3060, 0x3055, 0x3044]) (Lit [0x3067, 0x3059])))))]"

text \<open>
  The rule store: the four module-level lists of compiled patterns, which the settings
  panel extends while the program runs. \<open>startup\<close> is their value when the module has
  been loaded.
\<close>

record rule_store =
  RESPECT_RE :: "regex list"
  HUMBLE_RE :: "regex list"
  POLITE_RE :: "regex list"
  BEAUTIFIER_RE :: "regex list"

definition startup :: rule_store where
  "startup = \<lparr>RESPECT_RE = RESPECT_WORDS, HUMBLE_RE = HUMBLE_WORDS,
     POLITE_RE = POLITE_PATTERNS, BEAUTIFIER_RE = BEAUTIFIER_PATTERNS\<rparr>"

section \<open>The matcher and the classifier\<close>

text \<open>
  \<open>f if isinstance(f, str) else "".join(f)\<close>: the reported text of one item of
  \<open>findall\<close>.
\<close>

fun hit_text :: "found \<Rightarrow> ustr" where
  "hit_text (FStr f) = f"
| "hit_text (FTuple fs) = concat fs"

text \<open>\<open>_hits\<close>: the loop over the patterns, with the list \<open>hits\<close> it extends.\<close>

fun hits_loop :: "regex list \<Rightarrow> ustr \<Rightarrow> ustr list \<Rightarrow> ustr list" where
  "hits_loop [] s hits = hits"
| "hits_loop (pat # patterns) s hits =
     (let found = findall pat s
      in hits_loop patterns s (if found \<noteq> [] then hits @ map hit_text found else hits))"

definition hits :: "regex list \<Rightarrow> ustr \<Rightarrow> ustr list" where
  "hits patterns s = hits_loop patterns s []"

text \<open>
  A value of a table cell, which is what \<open>classify_keigo\<close> is applied to: a \<open>str\<close>, or
  anything else (a number, a date, the missing value \<open>NaN\<close>), of which only its
  rendering by \<open>str()\<close> is kept, for the comparison the row filter makes.
\<close>

datatype cell = Str ustr | Other ustr

record classification =
  is_keigo :: bool
  respect_cnt :: nat
  humble_cnt :: nat
  polite_cnt :: nat
  beautifier_cnt :: nat
  respect_hits :: ustr
  humble_hits :: ustr
  polite_hits :: ustr
  beautifier_hits :: ustr

text \<open>The result for a cell without text (lines 54 to 58).\<close>

definition no_data :: classification where
  "no_data = \<lparr>is_keigo = False,
     respect_cnt = 0, humble_cnt = 0, polite_cnt = 0, beautifier_cnt = 0,
     respect_hits = [], humble_hits = [], polite_hits = [], beautifier_hits = []\<rparr>"

text \<open>The separator of the hit columns, the ideographic comma U+3001.\<close>

definition SEP :: ustr where
  "SEP = [0x3001]"

text \<open>
  \<open>classify_keigo\<close>, reading the rule lists from the store it is given.
  \<open>any([r_hits, h_hits, p_hits, b_hits])\<close> holds when one of the lists is not empty.
\<close>

fun classify_keigo :: "rule_store \<Rightarrow> cell \<Rightarrow> classification" where
  "classify_keigo rs (Other v) = no_data"
| "classify_keigo rs (Str text) =
     (if strip text = [] then no_data
      else
        let r_hits = hits (RESPECT_RE rs) text;
            h_hits = hits (HUMBLE_RE rs) text;
            p_hits = hits (POLITE_RE rs) text;
            b_hits = hits (BEAUTIFIER_RE rs) text
        in \<lparr>is_keigo = (r_hits \<noteq> [] \<or> h_hits \<noteq> [] \<or> p_hits \<noteq> [] \<or> b_hits \<noteq> []),
            respect_cnt = length r_hits, humble_cnt = length h_hits,
            polite_cnt = length p_hits, beautifier_cnt = length b_hits,
            respect_hits = join SEP r_hits, humble_hits = join SEP h_hits,
            polite_hits = join SEP p_hits, beautifier_hits = join SEP b_hits\<rparr>)"

section \<open>The table and the classification run\<close>

text \<open>
  A row gives every column its cell. The uploaded sheet is a table: its column names
  and its rows, which \<open>xl.parse\<close> labels 0, 1, 2, ... in order. A frame is a pandas
  object in use: rows (or results) each with its index label, since the operations below
  go by label. The column names of the sheet are taken to be different from the nine
  names of the result columns.
\<close>

type_synonym row = "ustr \<Rightarrow> cell"

record table =
  columns :: "ustr list"
  body :: "row list"

type_synonym 'a frame = "(nat \<times> 'a) list"

definition frame_of :: "table \<Rightarrow> row frame" where
  "frame_of df = zip [0..<length (body df)] (body df)"

datatype error = KeyError | ValueError | ColumnNotFound

text \<open>
  The two placeholder entries of the filter boxes: \<open>UNUSED\<close> is
  \<^verbatim>\<open><FF08><4F7F><308F><306A><3044><FF09>\<close> (no filter column) and \<open>UNSELECTED\<close> is
  \<^verbatim>\<open><FF08><672A><9078><629E><FF09>\<close> (no value chosen).
\<close>

definition UNUSED :: ustr where
  "UNUSED = [0xFF08, 0x4F7F, 0x308F, 0x306A, 0x3044, 0xFF09]"

definition UNSELECTED :: ustr where
  "UNSELECTED = [0xFF08, 0x672A, 0x9078, 0x629E, 0xFF09]"

text \<open>\<open>astype(str)\<close> on one cell.\<close>

fun astype_str :: "cell \<Rightarrow> ustr" where
  "astype_str (Str s) = s"
| "astype_str (Other v) = v"

text \<open>
  Lines 122 and 123. \<open>filter_val\<close> is \<open>None\<close> when no filter column is chosen. The rows
  that are kept keep their labels.
\<close>

fun apply_filter :: "ustr list \<Rightarrow> ustr \<Rightarrow> ustr option \<Rightarrow> row frame \<Rightarrow> error + row frame" where
  "apply_filter cols filter_col None work_df = Inr work_df"
| "apply_filter cols filter_col (Some filter_val) work_df =
     (if filter_col \<noteq> UNUSED \<and> filter_val \<noteq> [] \<and> filter_val \<noteq> UNSELECTED then
        (if filter_col \<in> set cols
         then Inr (filter (\<lambda>ir. astype_str (snd ir filter_col) = filter_val) work_df)
         else Inl KeyError)
      else Inr work_df)"

text \<open>\<open>reset_index(drop=True)\<close>: the same rows, labelled 0, 1, 2, ... anew.\<close>

definition reset_index :: "'a frame \<Rightarrow> 'a frame" where
  "reset_index f = zip [0..<length f] (map snd f)"

text \<open>
  \<open>pd.concat([l, r], axis=1)\<close>: the two frames side by side, aligned on the index
  labels. With the same labels the rows are paired as they stand. Otherwise there is a
  row for every label of either frame, and the half a frame has no row for is missing
  (\<open>NaN\<close>, here \<open>None\<close>).
\<close>

definition concat_axis1 :: "'a frame \<Rightarrow> 'b frame \<Rightarrow> (nat \<times> 'a option \<times> 'b option) list" where
  "concat_axis1 l r =
     (if map fst l = map fst r
      then map (\<lambda>xy. (fst (fst xy), Some (snd (fst xy)), Some (snd (snd xy)))) (zip l r)
      else map (\<lambda>i. (i, map_of l i, map_of r i))
             (map fst l @ filter (\<lambda>i. i \<notin> set (map fst l)) (map fst r)))"

text \<open>
  A row of the output: its label, the cells of the original columns and the nine result
  columns.
\<close>

type_synonym classified = "nat \<times> row option \<times> classification option"

text \<open>
  Line 132, \<open>out_all[out_all["is_keigo"]]\<close>. The result columns are made from the
  results, so a frame without rows has no column \<open>is_keigo\<close> (\<open>KeyError\<close>); a mask with
  a missing value is refused (\<open>ValueError\<close>); otherwise the rows whose \<open>is_keigo\<close> is
  true are kept, in order.
\<close>

definition keigo_only :: "classified list \<Rightarrow> error + classified list" where
  "keigo_only out_all =
     (if out_all = [] then Inl KeyError
      else if list_ex (\<lambda>x. snd (snd x) = None) out_all then Inl ValueError
      else Inr (filter (\<lambda>x. map_option is_keigo (snd (snd x)) = Some True) out_all))"

text \<open>
  The run behind the button (lines 119 to 132): the pair of \<open>out_all\<close> and \<open>out_keigo\<close>,
  or the error that stops it.
\<close>

definition classify_table ::
  "rule_store \<Rightarrow> table \<Rightarrow> ustr \<Rightarrow> ustr \<Rightarrow> ustr option \<Rightarrow> error + classified list \<times> classified list"
where
  "classify_table rs df text_col filter_col filter_val =
     (case apply_filter (columns df) filter_col filter_val (frame_of df) of
        Inl e \<Rightarrow> Inl e
      | Inr work_df \<Rightarrow>
          (if text_col \<notin> set (columns df) then Inl ColumnNotFound
           else
             (let results = map (\<lambda>ir. (fst ir, classify_keigo rs (snd ir text_col))) work_df;
                  out_all = concat_axis1 (reset_index work_df) results
              in (case keigo_only out_all of
                    Inl e \<Rightarrow> Inl e
                  | Inr out_keigo \<Rightarrow> Inr (out_all, out_keigo)))))"

section \<open>Adding patterns\<close>

text \<open>
  \<open>str.splitlines\<close>: a line ends at U+000A, U+000B, U+000C, U+000D (with a U+000A
  right after it as one break), U+001C, U+001D, U+001E, U+0085, U+2028 or U+2029.
  \<open>cur\<close> is the line read so far.
\<close>

definition is_linebreak :: "nat \<Rightarrow> bool" where
  "is_linebreak c \<longleftrightarrow> (0x0A \<le> c \<and> c \<le> 0x0D) \<or> (0x1C \<le> c \<and> c \<le> 0x1E) \<or>
     c = 0x85 \<or> c = 0x2028 \<or> c = 0x2029"

fun splitlines_from :: "ustr \<Rightarrow> ustr \<Rightarrow> ustr list" where
  "splitlines_from cur [] = (if cur = [] then [] else [cur])"
| "splitlines_from cur [c] = (if is_linebreak c then [cur] else [cur @ [c]])"
| "splitlines_from cur (c # d # s) =
     (if c = 0x0D \<and> d = 0x0A then cur # splitlines_from [] s
      else if is_linebreak c then cur # splitlines_from [] (d # s)
      else splitlines_from (cur @ [c]) (d # s))"

definition splitlines :: "ustr \<Rightarrow> ustr list" where
  "splitlines s = splitlines_from [] s"

text \<open>\<open>_lines\<close> (lines 162 and 163).\<close>

definition lines_of :: "ustr \<Rightarrow> ustr list" where
  "lines_of s = map strip (filter (\<lambda>l. strip l \<noteq> []) (splitlines s))"

text \<open>
  What \<open>re.compile\<close> raises on a pattern it does not compile: \<open>re.error\<close> for a
  malformed pattern, or another exception (\<open>OverflowError\<close> for a repetition count that
  is too large, as in \<^verbatim>\<open>a{4294967296}\<close>, \<open>RecursionError\<close>, \<open>ValueError\<close>).
\<close>

datatype exn = ReError | OtherError

text \<open>
  \<open>[re.compile(p) for p in ps]\<close>, for a compiler \<open>re_compile\<close> that gives the compiled
  pattern or raises: the list is built only if every pattern compiles, and the first
  exception ends the comprehension.
\<close>

fun compile_all :: "(ustr \<Rightarrow> exn + regex) \<Rightarrow> ustr list \<Rightarrow> exn + regex list" where
  "compile_all re_compile [] = Inr []"
| "compile_all re_compile (p # ps) =
     (case re_compile p of
        Inl e \<Rightarrow> Inl e
      | Inr r \<Rightarrow> (case compile_all re_compile ps of Inl e \<Rightarrow> Inl e | Inr rs \<Rightarrow> Inr (r # rs)))"

text \<open>
  How the button of the settings panel ends: with the message of success, with the error
  message of line 171, or with an exception that leaves the handler.
  \<open>except re.error\<close> (line 170) catches \<open>re.error\<close> and nothing else.
\<close>

datatype outcome = Applied | RegexError | Uncaught

fun except_re_error :: "exn \<Rightarrow> outcome" where
  "except_re_error ReError = RegexError"
| "except_re_error OtherError = Uncaught"

text \<open>
  The button of the settings panel (lines 161 to 171): the four text areas are taken in
  turn, each list is extended once all lines of its text area have compiled, and the
  first exception ends the run. The result is how the run ends and the rule store
  afterwards.
\<close>

definition apply_patterns ::
  "(ustr \<Rightarrow> exn + regex) \<Rightarrow> rule_store \<Rightarrow> ustr \<Rightarrow> ustr \<Rightarrow> ustr \<Rightarrow> ustr \<Rightarrow> outcome \<times> rule_store"
where
  "apply_patterns re_compile rs extra_respect extra_humble extra_polite extra_beauty =
     (case compile_all re_compile (lines_of extra_respect) of
        Inl e \<Rightarrow> (except_re_error e, rs)
      | Inr r \<Rightarrow>
         (let rs1 = rs\<lparr>RESPECT_RE := RESPECT_RE rs @ r\<rparr> in
          (case compile_all re_compile (lines_of extra_humble) of
             Inl e \<Rightarrow> (except_re_error e, rs1)
           | Inr h \<Rightarrow>
              (let rs2 = rs1\<lparr>HUMBLE_RE := HUMBLE_RE rs1 @ h\<rparr> in
               (case compile_all re_compile (lines_of extra_polite) of
                  Inl e \<Rightarrow> (except_re_error e, rs2)
                | Inr p \<Rightarrow>
                   (let rs3 = rs2\<lparr>POLITE_RE := POLITE_RE rs2 @ p\<rparr> in
                    (case compile_all re_compile (lines_of extra_beauty) of
                       Inl e \<Rightarrow> (except_re_error e, rs3)
                     | Inr b \<Rightarrow> (Applied, rs3\<lparr>BEAUTIFIER_RE := BEAUTIFIER_RE rs3 @ b\<rparr>))))))))"

text \<open>The four categories, to name a rule list of the store or a text area.\<close>

datatype category = Respectful | Humble | Polite | Beautifying

fun rules_of :: "category \<Rightarrow> rule_store \<Rightarrow> regex list" where
  "rules_of Respectful rs = RESPECT_RE rs"
| "rules_of Humble rs = HUMBLE_RE rs"
| "rules_of Polite rs = POLITE_RE rs"
| "rules_of Beautifying rs = BEAUTIFIER_RE rs"

fun count_of :: "category \<Rightarrow> classification \<Rightarrow> nat" where
  "count_of Respectful c = respect_cnt c"
| "count_of Humble c = humble_cnt c"
| "count_of Polite c = polite_cnt c"
| "count_of Beautifying c = beautifier_cnt c"

section \<open>Properties of the matcher and the classifier\<close>

text \<open>
  The loop of \<open>_hits\<close> gives the hits of the patterns one after the other, each
  pattern's in the order of its matches.
\<close>

lemma hits_loop_acc:
  "hits_loop patterns s acc = acc @ concat (map (\<lambda>pat. map hit_text (findall pat s)) patterns)"
  by (induction patterns arbitrary: acc) (simp_all add: Let_def)

lemma hits_concat: "hits patterns s = concat (map (\<lambda>pat. map hit_text (findall pat s)) patterns)"
  by (simp add: hits_def hits_loop_acc)

lemma hits_append: "hits (ps @ qs) s = hits ps s @ hits qs s"
  by (simp add: hits_concat)

lemma strip_empty_iff: "strip s = [] \<longleftrightarrow> list_all isspace s"
proof
  assume "strip s = []"
  then have "dropWhile isspace (rev (dropWhile isspace s)) = []"
    by (simp add: strip_def)
  then have "\<forall>c \<in> set (rev (dropWhile isspace s)). isspace c"
    by (rule iffD1[OF dropWhile_eq_Nil_conv])
  then have all: "\<forall>c \<in> set (dropWhile isspace s). isspace c"
    by simp
  have nil: "dropWhile isspace s = []"
  proof (cases "dropWhile isspace s")
    case Nil
    then show ?thesis .
  next
    case (Cons c cs)
    then have "\<not> isspace c" using hd_dropWhile[of isspace s] by simp
    with all Cons show ?thesis by simp
  qed
  have "\<forall>c \<in> set s. isspace c"
    by (rule iffD1[OF dropWhile_eq_Nil_conv nil])
  then show "list_all isspace s"
    by (simp add: list_all_iff)
next
  assume "list_all isspace s"
  then have "\<forall>c \<in> set s. isspace c"
    by (simp add: list_all_iff)
  then have "dropWhile isspace s = []"
    by (rule iffD2[OF dropWhile_eq_Nil_conv])
  then show "strip s = []"
    by (simp add: strip_def del: dropWhile_eq_Nil_conv)
qed

text \<open>
  C1. For every input, the verdict \<open>is_keigo\<close> of the classification is exactly the
  disjunction of the four hit counts being positive.
\<close>

theorem classify_keigo_verdict:
  "is_keigo (classify_keigo rs x) \<longleftrightarrow>
     0 < respect_cnt (classify_keigo rs x) \<or> 0 < humble_cnt (classify_keigo rs x) \<or>
     0 < polite_cnt (classify_keigo rs x) \<or> 0 < beautifier_cnt (classify_keigo rs x)"
  by (cases x) (simp_all add: no_data_def Let_def)

theorem classify_keigo_verdict_witness:
  "is_keigo (classify_keigo startup (Str [0x3067, 0x3059])) \<longleftrightarrow>
     0 < respect_cnt (classify_keigo startup (Str [0x3067, 0x3059])) \<or>
     0 < humble_cnt (classify_keigo startup (Str [0x3067, 0x3059])) \<or>
     0 < polite_cnt (classify_keigo startup (Str [0x3067, 0x3059])) \<or>
     0 < beautifier_cnt (classify_keigo startup (Str [0x3067, 0x3059]))"
  by (rule classify_keigo_verdict)

text \<open>
  C2. For an input that is not a \<open>str\<close>, the empty text or a text of whitespace only,
  \<open>classify_keigo\<close> returns the no-data result: verdict false, the four counts zero, the
  four hit strings empty. The function is total, so no error is raised.
\<close>

theorem classify_keigo_no_data:
  "(case x of Other v \<Rightarrow> True | Str text \<Rightarrow> list_all isspace text) \<Longrightarrow>
     classify_keigo rs x = no_data"
  by (cases x) (simp_all add: strip_empty_iff)

theorem classify_keigo_no_data_witness:
  "list_all isspace [0x20, 0x3000, 0x0A] \<and>
   classify_keigo startup (Str [0x20, 0x3000, 0x0A]) = no_data \<and>
   classify_keigo startup (Str []) = no_data \<and>
   classify_keigo startup (Other [0x6E, 0x61, 0x6E]) = no_data"
proof -
  have ws: "list_all isspace [0x20, 0x3000, 0x0A]"
    by (simp add: isspace_def)
  from ws have "classify_keigo startup (Str [0x20, 0x3000, 0x0A]) = no_data"
    using classify_keigo_no_data[of "Str [0x20, 0x3000, 0x0A]" startup] by simp
  moreover have "classify_keigo startup (Str []) = no_data"
    using classify_keigo_no_data[of "Str []" startup] by simp
  moreover have "classify_keigo startup (Other [0x6E, 0x61, 0x6E]) = no_data"
    using classify_keigo_no_data[of "Other [0x6E, 0x61, 0x6E]" startup] by simp
  ultimately show ?thesis using ws by simp
qed

section \<open>The classification run on a table\<close>

text \<open>
  Without a row filter, on a sheet with at least one row, the run gives one output row
  for every row of the sheet, in order and under the same label, the original cells
  unchanged and the classification of the text cell beside them; \<open>out_keigo\<close> is the
  rows of \<open>out_all\<close> whose \<open>is_keigo\<close> is true, in the same order.
\<close>

lemma reset_index_frame_of: "reset_index (frame_of df) = frame_of df"
  by (simp add: reset_index_def frame_of_def)

lemma classify_table_unfiltered:
  assumes "text_col \<in> set (columns df)" and "body df \<noteq> []"
  shows "classify_table rs df text_col filter_col None =
     Inr (map (\<lambda>ir. (fst ir, Some (snd ir), Some (classify_keigo rs (snd ir text_col))))
            (frame_of df),
          filter (\<lambda>x. map_option is_keigo (snd (snd x)) = Some True)
            (map (\<lambda>ir. (fst ir, Some (snd ir), Some (classify_keigo rs (snd ir text_col))))
               (frame_of df)))"
proof -
  let ?results = "map (\<lambda>ir. (fst ir, classify_keigo rs (snd ir text_col))) (frame_of df)"
  let ?all = "map (\<lambda>ir. (fst ir, Some (snd ir), Some (classify_keigo rs (snd ir text_col))))
                (frame_of df)"
  have "concat_axis1 (frame_of df) ?results =
          map (\<lambda>xy. (fst (fst xy), Some (snd (fst xy)), Some (snd (snd xy))))
            (zip (frame_of df) ?results)"
    by (simp add: concat_axis1_def comp_def)
  also have "\<dots> = ?all"
    by (simp add: zip_map2 comp_def zip_same_conv_map)
  finally have all: "concat_axis1 (reset_index (frame_of df)) ?results = ?all"
    by (simp add: reset_index_frame_of)
  from assms(2) have ne: "?all \<noteq> []"
    by (simp add: frame_of_def)
  have "\<not> list_ex (\<lambda>x. snd (snd x) = None) ?all"
    by (simp add: list_ex_iff)
  with ne have "keigo_only ?all =
      Inr (filter (\<lambda>x. map_option is_keigo (snd (snd x)) = Some True) ?all)"
    by (simp add: keigo_only_def)
  with all assms(1) show ?thesis
    by (simp add: classify_table_def Let_def)
qed

text \<open>Unfolding the pattern engine on a concrete pattern and text.\<close>

lemmas sre_eval = findall_def finditer_def found_of_def sre_search_def match_at_def run_len_def
  in_class_def slice_def group_text_def upt_rec

lemma hits_desu:
  "hits RESPECT_WORDS [0x3067, 0x3059] = [] \<and> hits HUMBLE_WORDS [0x3067, 0x3059] = [] \<and>
   hits POLITE_PATTERNS [0x3067, 0x3059] = [[0x3067, 0x3059]] \<and>
   hits BEAUTIFIER_PATTERNS [0x3067, 0x3059] = []"
  by (simp add: sre_eval hits_def RESPECT_WORDS_def HUMBLE_WORDS_def POLITE_PATTERNS_def
      TAIL_def BEAUTIFIER_PATTERNS_def isspace_def)

text \<open>
  C3. The claim: the run gives exactly one classified row for every row it classifies,
  in order, the row count kept and the original columns unchanged beside the result
  columns, and \<open>out_keigo\<close> is the rows of \<open>out_all\<close> with \<open>is_keigo\<close> true. The code
  does so only while the labels of the rows are 0, 1, 2, ...: line 131 relabels
  \<open>work_df\<close> but not \<open>results\<close>, so after a row filter the two are aligned on different
  labels. Here the sheet has the columns \<^verbatim>\<open><8A71><8005>\<close> (speaker) and \<open>text\<close> and three
  rows, of speakers \<open>A\<close>, \<open>B\<close>, \<open>A\<close>; the filter keeps speaker \<open>A\<close>, rows 0 and 2. The
  run gives no classified rows: line 132 stops with \<open>ValueError\<close>.
\<close>

theorem filtered_run_fails:
  "classify_table startup
     \<lparr>columns = [[0x8A71, 0x8005], [0x74, 0x65, 0x78, 0x74]],
      body = [\<lambda>c. if c = [0x8A71, 0x8005] then Str [0x41] else Str [0x306F, 0x3044],
              \<lambda>c. if c = [0x8A71, 0x8005] then Str [0x42] else Str [0x3067, 0x3059],
              \<lambda>c. if c = [0x8A71, 0x8005] then Str [0x41] else Str [0x3046, 0x3093]]\<rparr>
     [0x74, 0x65, 0x78, 0x74] [0x8A71, 0x8005] (Some [0x41])
   = Inl ValueError"
  by (simp add: classify_table_def frame_of_def UNUSED_def UNSELECTED_def reset_index_def
      concat_axis1_def keigo_only_def Let_def upt_rec)

text \<open>
  C7. The claim: the run with a row filter gives the result of the run without a filter
  on the sheet that holds just the rows the filter keeps. On the sheet of two rows, of
  speakers \<open>A\<close> and \<open>B\<close>, with the filter on speaker \<open>B\<close>, the run stops with
  \<open>ValueError\<close>, while the sheet of the one row of \<open>B\<close>, run without a filter, gives
  that row classified. (The filter itself is applied before the classification.)
\<close>

theorem filter_not_equal_prefiltered:
  "classify_table startup
     \<lparr>columns = [[0x8A71, 0x8005], [0x74, 0x65, 0x78, 0x74]],
      body = [\<lambda>c. if c = [0x8A71, 0x8005] then Str [0x41] else Str [0x306F, 0x3044],
              \<lambda>c. if c = [0x8A71, 0x8005] then Str [0x42] else Str [0x3067, 0x3059]]\<rparr>
     [0x74, 0x65, 0x78, 0x74] [0x8A71, 0x8005] (Some [0x42])
   = Inl ValueError \<and>
   classify_table startup
     \<lparr>columns = [[0x8A71, 0x8005], [0x74, 0x65, 0x78, 0x74]],
      body = [\<lambda>c. if c = [0x8A71, 0x8005] then Str [0x42] else Str [0x3067, 0x3059]]\<rparr>
     [0x74, 0x65, 0x78, 0x74] UNUSED None
   = Inr ([(0, Some (\<lambda>c. if c = [0x8A71, 0x8005] then Str [0x42] else Str [0x3067, 0x3059]),
              Some \<lparr>is_keigo = True, respect_cnt = 0, humble_cnt = 0, polite_cnt = 1,
                beautifier_cnt = 0, respect_hits = [], humble_hits = [],
                polite_hits = [0x3067, 0x3059], beautifier_hits = []\<rparr>)],
           [(0, Some (\<lambda>c. if c = [0x8A71, 0x8005] then Str [0x42] else Str [0x3067, 0x3059]),
              Some \<lparr>is_keigo = True, respect_cnt = 0, humble_cnt = 0, polite_cnt = 1,
                beautifier_cnt = 0, respect_hits = [], humble_hits = [],
                polite_hits = [0x3067, 0x3059], beautifier_hits = []\<rparr>)])"
  by (simp add: classify_table_def frame_of_def UNUSED_def UNSELECTED_def reset_index_def
      concat_axis1_def keigo_only_def Let_def upt_rec hits_desu startup_def strip_def
      isspace_def)

section \<open>Adding patterns to the rule store\<close>



text \<open>The button only ever appends to a rule list.\<close>

lemma apply_patterns_extends:
  "\<exists>ys. rules_of cat (snd (apply_patterns re_compile rs er eh ep eb)) = rules_of cat rs @ ys"
  by (cases cat) (auto simp: apply_patterns_def Let_def split: sum.splits)

lemma count_of_classify:
  "count_of cat (classify_keigo rs x) =
     (case x of Other v \<Rightarrow> 0
      | Str text \<Rightarrow> if strip text = [] then 0 else length (hits (rules_of cat rs) text))"
  by (cases x; cases cat) (simp_all add: no_data_def Let_def)

text \<open>
  C4. Adding a pattern never lowers a hit count: for every text, the rule list with one
  more pattern at its end gives at least as many hits as the list before; and for every
  input and every category, the count that \<open>classify_keigo\<close> reports with the rule
  store left by the button of the settings panel, whatever the four text areas hold,
  is at least the count it reports with the store before.
\<close>

theorem hit_count_monotone:
  "length (hits patterns s) \<le> length (hits (patterns @ [pat]) s) \<and>
   count_of cat (classify_keigo rs x)
     \<le> count_of cat (classify_keigo (snd (apply_patterns re_compile rs er eh ep eb)) x)"
proof
  show "length (hits patterns s) \<le> length (hits (patterns @ [pat]) s)"
    by (simp add: hits_append)
next
  obtain ys where
    ys: "rules_of cat (snd (apply_patterns re_compile rs er eh ep eb)) = rules_of cat rs @ ys"
    using apply_patterns_extends by blast
  show "count_of cat (classify_keigo rs x)
     \<le> count_of cat (classify_keigo (snd (apply_patterns re_compile rs er eh ep eb)) x)"
    by (simp add: count_of_classify ys hits_append split: cell.split)
qed

lemma lines_of_example: "lines_of [0x20, 0x3067, 0x3059, 0x0A] = [[0x3067, 0x3059]]"
  by (simp add: lines_of_def splitlines_def is_linebreak_def strip_def isspace_def)

lemma hits_desu_twice:
  "hits (POLITE_PATTERNS @ [Lit [0x3067, 0x3059]]) [0x3067, 0x3059]
     = [[0x3067, 0x3059], [0x3067, 0x3059]]"
  by (simp add: hits_append hits_desu) (simp add: sre_eval hits_def)

theorem hit_count_monotone_witness:
  "length (hits POLITE_PATTERNS [0x3067, 0x3059])
     \<le> length (hits (POLITE_PATTERNS @ [Lit [0x3067, 0x3059]]) [0x3067, 0x3059]) \<and>
   count_of Polite (classify_keigo startup (Str [0x3067, 0x3059]))
     \<le> count_of Polite (classify_keigo (snd (apply_patterns (\<lambda>p. Inr (Lit p)) startup
          [] [] [0x20, 0x3067, 0x3059, 0x0A] [])) (Str [0x3067, 0x3059]))"
  by (rule hit_count_monotone)

text \<open>
  In that example the polite text area holds the one line \<^verbatim>\<open><3067><3059>\<close>; the polite
  count of the text \<^verbatim>\<open><3067><3059>\<close> goes from 1 to 2.
\<close>

lemma lines_of_empty: "lines_of [] = []"
  by (simp add: lines_of_def splitlines_def)

lemma polite_store_example:
  "snd (apply_patterns (\<lambda>p. Inr (Lit p)) startup [] [] [0x20, 0x3067, 0x3059, 0x0A] [])
     = startup\<lparr>POLITE_RE := POLITE_PATTERNS @ [Lit [0x3067, 0x3059]]\<rparr>"
  by (simp add: apply_patterns_def lines_of_example lines_of_empty Let_def startup_def)

lemma polite_count_before:
  "count_of Polite (classify_keigo startup (Str [0x3067, 0x3059])) = 1"
  by (simp add: startup_def hits_desu strip_def isspace_def Let_def)

lemma polite_count_after:
  "count_of Polite (classify_keigo
      (startup\<lparr>POLITE_RE := POLITE_PATTERNS @ [Lit [0x3067, 0x3059]]\<rparr>)
      (Str [0x3067, 0x3059])) = 2"
  by (simp add: hits_desu_twice strip_def isspace_def Let_def)





section \<open>What a hit reports\<close>

lemma hits_single: "hits [pat] s = map hit_text (findall pat s)"
  by (simp add: hits_concat)

text \<open>
  C6. For a pattern with several capturing groups, the text reported for each match is
  the concatenation of the texts of all its groups, in the order of the groups, not the
  text of the whole match.
\<close>

theorem hits_several_groups:
  "2 \<le> ngroups pat \<Longrightarrow>
     hits [pat] s =
       map (\<lambda>m. concat (map (group_text s (snd (snd m))) [0..<ngroups pat])) (finditer pat s)"
  by (simp add: hits_single findall_def found_of_def)

text \<open>
  The pattern \<^verbatim>\<open>(<3067>)(<3059>)<3002>*\<close> on the text \<^verbatim>\<open><3067><3059><3002>\<close>: one match, of
  the whole text, reported as \<^verbatim>\<open><3067><3059>\<close>.
\<close>

theorem hits_several_groups_witness:
  "2 \<le> ngroups (Seq (Grp (Lit [0x3067])) (Seq (Grp (Lit [0x3059])) (Rep [CChar 0x3002] 0 None))) \<and>
   hits [Seq (Grp (Lit [0x3067])) (Seq (Grp (Lit [0x3059])) (Rep [CChar 0x3002] 0 None))]
     [0x3067, 0x3059, 0x3002] = [[0x3067, 0x3059]] \<and>
   map (\<lambda>m. (fst m, fst (snd m)))
     (finditer (Seq (Grp (Lit [0x3067])) (Seq (Grp (Lit [0x3059])) (Rep [CChar 0x3002] 0 None)))
        [0x3067, 0x3059, 0x3002]) = [(0, 3)]"
proof -
  let ?pat = "Seq (Grp (Lit [0x3067])) (Seq (Grp (Lit [0x3059])) (Rep [CChar 0x3002] 0 None))"
  let ?s = "[0x3067, 0x3059, 0x3002] :: ustr"
  have g: "2 \<le> ngroups ?pat" by simp
  have "hits [?pat] ?s =
      map (\<lambda>m. concat (map (group_text ?s (snd (snd m))) [0..<ngroups ?pat])) (finditer ?pat ?s)"
    using g by (rule hits_several_groups)
  also have "\<dots> = [[0x3067, 0x3059]]"
    by (simp add: sre_eval)
  finally have h: "hits [?pat] ?s = [[0x3067, 0x3059]]" .
  have "map (\<lambda>m. (fst m, fst (snd m))) (finditer ?pat ?s) = [(0, 3)]"
    by (simp add: sre_eval)
  with g h show ?thesis by simp
qed

text \<open>
  C8, as claimed: for every rule list, the matcher gives no hit on an empty text or a
  text of whitespace only. \<open>_hits\<close> has no such check; it applies every pattern to the
  text it is given. The pattern \<^verbatim>\<open><30FC>*\<close> has one hit, the empty string, on the
  empty text, and the pattern \<^verbatim>\<open>\s*\<close> has two hits on the text of one space.
\<close>

theorem hits_blank_counterexample:
  "hits [Rep [CChar 0x30FC] 0 None] [] = [[]] \<and>
   hits [Rep [CSpace] 0 None] [0x20] = [[0x20], []]"
  by (simp add: sre_eval hits_def isspace_def)

text \<open>
  C8, amended: the check for an empty text or a text of whitespace only is made by
  \<open>classify_keigo\<close>, before the matcher is called. For such a text the classification
  does not depend on the rule store (no rule is applied) and reports no hit in any
  category.
\<close>

theorem blank_text_short_circuit:
  "list_all isspace text \<Longrightarrow>
     classify_keigo rs (Str text) = classify_keigo rs' (Str text) \<and>
     count_of cat (classify_keigo rs (Str text)) = 0 \<and>
     respect_hits (classify_keigo rs (Str text)) = [] \<and>
     humble_hits (classify_keigo rs (Str text)) = [] \<and>
     polite_hits (classify_keigo rs (Str text)) = [] \<and>
     beautifier_hits (classify_keigo rs (Str text)) = []"
  by (cases cat) (simp_all add: strip_empty_iff no_data_def)

text \<open>
  The rule store whose only rule is the pattern \<^verbatim>\<open>\s*\<close> of the counterexample, on the
  text of one space.
\<close>

theorem blank_text_short_circuit_witness:
  "list_all isspace [0x20] \<and>
   classify_keigo (startup\<lparr>POLITE_RE := [Rep [CSpace] 0 None]\<rparr>) (Str [0x20])
     = classify_keigo startup (Str [0x20]) \<and>
   count_of Polite (classify_keigo (startup\<lparr>POLITE_RE := [Rep [CSpace] 0 None]\<rparr>) (Str [0x20])) = 0 \<and>
   polite_hits (classify_keigo (startup\<lparr>POLITE_RE := [Rep [CSpace] 0 None]\<rparr>) (Str [0x20])) = []"
proof -
  have ws: "list_all isspace [0x20]"
    by (simp add: isspace_def)
  from blank_text_short_circuit[OF ws, of "startup\<lparr>POLITE_RE := [Rep [CSpace] 0 None]\<rparr>" startup Polite]
  show ?thesis using ws by blast
qed

section \<open>The built-in rules on a sentence\<close>

text \<open>
  The text is \<^verbatim>\<open><3053><308C><306F><30DA><30F3><3067><3059><3002>\<close> ("this is a pen", in the
  polite form, with the full stop U+3002).
\<close>

lemma scenario_respect:
  "hits RESPECT_WORDS [0x3053, 0x308C, 0x306F, 0x30DA, 0x30F3, 0x3067, 0x3059, 0x3002] = []"
  by (simp add: sre_eval hits_def RESPECT_WORDS_def)

lemma scenario_humble:
  "hits HUMBLE_WORDS [0x3053, 0x308C, 0x306F, 0x30DA, 0x30F3, 0x3067, 0x3059, 0x3002] = []"
  by (simp add: sre_eval hits_def HUMBLE_WORDS_def)

lemma scenario_polite:
  "hits POLITE_PATTERNS [0x3053, 0x308C, 0x306F, 0x30DA, 0x30F3, 0x3067, 0x3059, 0x3002]
     = [[0x3067, 0x3059, 0x3002]]"
  by (simp add: sre_eval hits_def POLITE_PATTERNS_def TAIL_def isspace_def)

lemma scenario_beautifier:
  "hits BEAUTIFIER_PATTERNS [0x3053, 0x308C, 0x306F, 0x30DA, 0x30F3, 0x3067, 0x3059, 0x3002] = []"
  by (simp add: sre_eval hits_def BEAUTIFIER_PATTERNS_def)

lemma scenario_strip:
  "strip [0x3053, 0x308C, 0x306F, 0x30DA, 0x30F3, 0x3067, 0x3059, 0x3002] \<noteq> []"
  by (simp add: strip_def isspace_def)

text \<open>
  C9. With the built-in rules, the classification of that text has polite count 1, the
  one hit being \<^verbatim>\<open><3067><3059><3002>\<close> (the ending and the full stop), the other three
  counts 0, and the verdict true.
\<close>

theorem scenario_pen:
  "classify_keigo startup (Str [0x3053, 0x308C, 0x306F, 0x30DA, 0x30F3, 0x3067, 0x3059, 0x3002]) =
     \<lparr>is_keigo = True,
      respect_cnt = 0, humble_cnt = 0, polite_cnt = 1, beautifier_cnt = 0,
      respect_hits = [], humble_hits = [], polite_hits = [0x3067, 0x3059, 0x3002],
      beautifier_hits = []\<rparr>"
  using scenario_strip
  by (simp add: startup_def scenario_respect scenario_humble scenario_polite scenario_beautifier)

text \<open>
  C10. For a pattern with exactly one capturing group, the text reported for each match
  is the text of that group alone; for a pattern without capturing groups it is the text
  of the whole match.
\<close>

theorem hits_one_group:
  "(ngroups pat = 1 \<longrightarrow>
      hits [pat] s = map (\<lambda>m. group_text s (snd (snd m)) 0) (finditer pat s)) \<and>
   (ngroups pat = 0 \<longrightarrow>
      hits [pat] s = map (\<lambda>m. slice s (fst m) (fst (snd m))) (finditer pat s))"
  by (simp add: hits_single findall_def found_of_def)

text \<open>
  The patterns \<^verbatim>\<open>(<3067><3059>)<3002>*\<close> and \<^verbatim>\<open><3067><3059><3002>*\<close> on the text
  \<^verbatim>\<open><3067><3059><3002>\<close>: the first reports the group, the second the whole match.
\<close>

theorem hits_one_group_witness:
  "ngroups (Seq (Grp (Lit [0x3067, 0x3059])) (Rep [CChar 0x3002] 0 None)) = 1 \<and>
   hits [Seq (Grp (Lit [0x3067, 0x3059])) (Rep [CChar 0x3002] 0 None)] [0x3067, 0x3059, 0x3002]
     = [[0x3067, 0x3059]] \<and>
   ngroups (Seq (Lit [0x3067, 0x3059]) (Rep [CChar 0x3002] 0 None)) = 0 \<and>
   hits [Seq (Lit [0x3067, 0x3059]) (Rep [CChar 0x3002] 0 None)] [0x3067, 0x3059, 0x3002]
     = [[0x3067, 0x3059, 0x3002]]"
proof -
  let ?one = "Seq (Grp (Lit [0x3067, 0x3059])) (Rep [CChar 0x3002] 0 None)"
  let ?none = "Seq (Lit [0x3067, 0x3059]) (Rep [CChar 0x3002] 0 None)"
  let ?s = "[0x3067, 0x3059, 0x3002] :: ustr"
  have g1: "ngroups ?one = 1" and g0: "ngroups ?none = 0" by simp_all
  from hits_one_group[of ?one ?s] g1
  have "hits [?one] ?s = map (\<lambda>m. group_text ?s (snd (snd m)) 0) (finditer ?one ?s)"
    by blast
  also have "\<dots> = [[0x3067, 0x3059]]"
    by (simp add: sre_eval)
  finally have h1: "hits [?one] ?s = [[0x3067, 0x3059]]" .
  from hits_one_group[of ?none ?s] g0
  have "hits [?none] ?s = map (\<lambda>m. slice ?s (fst m) (fst (snd m))) (finditer ?none ?s)"
    by blast
  also have "\<dots> = [[0x3067, 0x3059, 0x3002]]"
    by (simp add: sre_eval)
  finally have h0: "hits [?none] ?s = [[0x3067, 0x3059, 0x3002]]" .
  from g1 g0 h1 h0 show ?thesis by blast
qed

end
